theory Spec2Isabelle
  imports Main "HOL-Library.Word" "HOL-Library.AList"
begin

section \<open>Basic types of package l2tp\<close>

text \<open>
  \<^verbatim>\<open>ControlConnID\<close> is a 32-bit unsigned identifier. The declarations of
  \<^verbatim>\<open>ProtocolVersion\<close>, \<^verbatim>\<open>EncapType\<close>, \<^verbatim>\<open>PseudowireType\<close> and \<^verbatim>\<open>L2SpecType\<close>
  are not among the sources: they are Go integer types (the loader returns the literal
  \<^verbatim>\<open>0\<close> of each), modelled as \<open>int\<close>. The protocol versions are 2 and 3 as in
  \<^verbatim>\<open>internal/nll2tp\<close>; the other constants take the values of the Linux L2TP netlink
  enumerations they alias. Only their being pairwise different is used below.
\<close>

type_synonym ControlConnID = "32 word"
type_synonym ProtocolVersion = int
type_synonym EncapType = int
type_synonym PseudowireType = int
type_synonym L2SpecType = int
type_synonym Duration = int \<comment> \<open>\<^verbatim>\<open>time.Duration\<close>: nanoseconds\<close>

definition ProtocolVersion2 :: ProtocolVersion where "ProtocolVersion2 = 2"
definition ProtocolVersion3 :: ProtocolVersion where "ProtocolVersion3 = 3"
definition EncapTypeUDP :: EncapType where "EncapTypeUDP = 0"
definition EncapTypeIP :: EncapType where "EncapTypeIP = 1"
definition PseudowireTypePPP :: PseudowireType where "PseudowireTypePPP = 7"
definition PseudowireTypeEth :: PseudowireType where "PseudowireTypeEth = 5"
definition L2SpecTypeNone :: L2SpecType where "L2SpecTypeNone = 0"
definition L2SpecTypeDefault :: L2SpecType where "L2SpecTypeDefault = 1"
definition Millisecond :: Duration where "Millisecond = 1000000"
definition Second :: Duration where "Second = 1000000000"

section \<open>Configuration trees and errors\<close>

text \<open>
  The value of an \<^verbatim>\<open>interface{}\<close> found in the map that go-toml's \<^verbatim>\<open>ToMap\<close> returns.
  A Go map has no duplicate keys and is ranged over in an unspecified order: a
  \<^verbatim>\<open>map[string]interface{}\<close> is an association list whose order is the order in which
  this run of the loader visits the entries.
\<close>

datatype toml =
    TomlInt64 int
  | TomlUint64 nat
  | TomlBool bool
  | TomlString string
  | TomlArray "toml list"
  | TomlMap "(string \<times> toml) list"
  | TomlOther string \<comment> \<open>any other dynamic type, by its name (float64, time.Time, ...)\<close>

text \<open>
  An \<^verbatim>\<open>error\<close> value: \<open>Errorf\<close> is \<^verbatim>\<open>fmt.Errorf\<close> applied to the format string of the
  source and its arguments, \<open>External\<close> an error returned by a library or by code that is
  not among the sources.
\<close>

datatype error =
    Errorf string "fmtarg list"
  | External string
and fmtarg =
    ArgString string
  | ArgInt int
  | ArgID ControlConnID
  | ArgValue toml
  | ArgError error

text \<open>A word between single quotes, for the messages that quote one.\<close>

definition quoted :: "string \<Rightarrow> string" where
  "quoted s = CHR 0x27 # s @ [CHR 0x27]"

section \<open>The configuration loader\<close>

text \<open>The two messages of the parameter loops.\<close>

definition ErrUnrecognised :: "string \<Rightarrow> error" where
  "ErrUnrecognised k = Errorf (''unrecognised parameter '' @ quoted ''%v'') [ArgString k]"

definition ErrFailedToProcess :: "string \<Rightarrow> error \<Rightarrow> error" where
  "ErrFailedToProcess k err = Errorf ''failed to process %v: %v'' [ArgString k, ArgError err]"

record SessionConfig =
  SessionID :: ControlConnID
  PeerSessionID :: ControlConnID
  Pseudowire :: PseudowireType
  SeqNum :: bool
  ReorderTimeout :: Duration
  Cookie :: "8 word list"
  PeerCookie :: "8 word list"
  InterfaceName :: string
  L2SpecType :: L2SpecType

text \<open>
  \<^verbatim>\<open>TunnelConfig\<close> as the loader declares it, with the two further fields
  (\<^verbatim>\<open>HostName\<close>, \<^verbatim>\<open>StopCCNTimeout\<close>) that the tunnel factories read and write.
\<close>

record TunnelConfig =
  Local :: string
  Peer :: string
  Encap :: EncapType
  Version :: ProtocolVersion
  TunnelID :: ControlConnID
  PeerTunnelID :: ControlConnID
  Sessions :: "(string \<times> SessionConfig) list"
  HostName :: string
  StopCCNTimeout :: Duration

record Config =
  cm :: "(string \<times> toml) list"
  tunnels :: "(string \<times> TunnelConfig) list"

definition toBool :: "toml \<Rightarrow> error + bool" where
  "toBool v = (case v of TomlBool b \<Rightarrow> Inr b | _ \<Rightarrow> Inl (Errorf ''supplied value could not be parsed as a bool'' []))"

definition toUint32 :: "toml \<Rightarrow> error + 32 word" where
  "toUint32 v =
     (case v of
        TomlInt64 b \<Rightarrow>
          if b < 0x0 \<or> b > 0xffffffff then Inl (Errorf ''value %x out of range'' [ArgInt b]) else Inr (word_of_int b)
      | TomlUint64 b \<Rightarrow>
          if b > 0xffffffff then Inl (Errorf ''value %x out of range'' [ArgInt (int b)]) else Inr (word_of_nat b)
      | _ \<Rightarrow> Inl (Errorf ''unexpected %T value %v'' [ArgValue v, ArgValue v]))"

definition toString :: "toml \<Rightarrow> error + string" where
  "toString v = (case v of TomlString s \<Rightarrow> Inr s | _ \<Rightarrow> Inl (Errorf ''supplied value could not be parsed as a string'' []))"

definition toDurationMs :: "toml \<Rightarrow> error + Duration" where
  "toDurationMs v =
     (case toUint32 v of Inl err \<Rightarrow> Inl err | Inr u \<Rightarrow> Inr (uint u * Millisecond))"

definition toVersion :: "toml \<Rightarrow> error + ProtocolVersion" where
  "toVersion v =
     (case toString v of
        Inr s \<Rightarrow>
          if s = ''l2tpv2'' then Inr ProtocolVersion2
          else if s = ''l2tpv3'' then Inr ProtocolVersion3
          else Inl (Errorf (''expect '' @ quoted ''l2tpv2'' @ '' or '' @ quoted ''l2tpv3'') [])
      | Inl err \<Rightarrow> Inl err)"

definition toEncapType :: "toml \<Rightarrow> error + EncapType" where
  "toEncapType v =
     (case toString v of
        Inr s \<Rightarrow>
          if s = ''udp'' then Inr EncapTypeUDP
          else if s = ''ip'' then Inr EncapTypeIP
          else Inl (Errorf (''expect '' @ quoted ''udp'' @ '' or '' @ quoted ''ip'') [])
      | Inl err \<Rightarrow> Inl err)"

definition toPseudowireType :: "toml \<Rightarrow> error + PseudowireType" where
  "toPseudowireType v =
     (case toString v of
        Inr s \<Rightarrow>
          if s = ''ppp'' then Inr PseudowireTypePPP
          else if s = ''eth'' then Inr PseudowireTypeEth
          else Inl (Errorf (''expect '' @ quoted ''ppp'' @ '' or '' @ quoted ''eth'') [])
      | Inl err \<Rightarrow> Inl err)"

definition toL2SpecType :: "toml \<Rightarrow> error + L2SpecType" where
  "toL2SpecType v =
     (case toString v of
        Inr s \<Rightarrow>
          if s = ''none'' then Inr L2SpecTypeNone
          else if s = ''default'' then Inr L2SpecTypeDefault
          else Inl (Errorf (''expect '' @ quoted ''none'' @ '' or '' @ quoted ''default'') [])
      | Inl err \<Rightarrow> Inl err)"

definition toCCID :: "toml \<Rightarrow> error + ControlConnID" where
  "toCCID v = (case toUint32 v of Inl err \<Rightarrow> Inl err | Inr u \<Rightarrow> Inr u)"

text \<open>The loop of \<^verbatim>\<open>toBytes\<close> over the array, \<open>out\<close> being the bytes appended so far.\<close>

fun toBytes_loop :: "8 word list \<Rightarrow> toml list \<Rightarrow> error + 8 word list" where
  "toBytes_loop out [] = Inr out"
| "toBytes_loop out (number # numbers) =
     (case number of
        TomlInt64 b \<Rightarrow>
          if b < 0x0 \<or> b > 0xff then Inl (Errorf ''value %x out of range in byte array'' [ArgInt b])
          else toBytes_loop (out @ [word_of_int b]) numbers
      | TomlUint64 b \<Rightarrow>
          if b > 0xff then Inl (Errorf ''value %x out of range in byte array'' [ArgInt (int b)])
          else toBytes_loop (out @ [word_of_nat b]) numbers
      | _ \<Rightarrow> Inl (Errorf ''unexpected %T value %v in byte array'' [ArgValue number, ArgValue number]))"

definition toBytes :: "toml \<Rightarrow> error + 8 word list" where
  "toBytes v =
     (case v of
        TomlArray numbers \<Rightarrow> toBytes_loop [] numbers
      | _ \<Rightarrow> Inl (Errorf ''expected array value'' []))"

text \<open>One pass of the \<^verbatim>\<open>switch\<close> in \<^verbatim>\<open>newSessionConfig\<close>.\<close>

definition sessionParam :: "SessionConfig \<Rightarrow> string \<Rightarrow> toml \<Rightarrow> error + SessionConfig" where
  "sessionParam sc k v =
     (if k = ''sid'' then
        (case toCCID v of Inl err \<Rightarrow> Inl (ErrFailedToProcess k err)
         | Inr x \<Rightarrow> Inr (sc\<lparr>SessionID := x\<rparr>))
      else if k = ''psid'' then
        (case toCCID v of Inl err \<Rightarrow> Inl (ErrFailedToProcess k err)
         | Inr x \<Rightarrow> Inr (sc\<lparr>PeerSessionID := x\<rparr>))
      else if k = ''pseudowire'' then
        (case toPseudowireType v of Inl err \<Rightarrow> Inl (ErrFailedToProcess k err)
         | Inr x \<Rightarrow> Inr (sc\<lparr>Pseudowire := x\<rparr>))
      else if k = ''seqnum'' then
        (case toBool v of Inl err \<Rightarrow> Inl (ErrFailedToProcess k err)
         | Inr x \<Rightarrow> Inr (sc\<lparr>SeqNum := x\<rparr>))
      else if k = ''reorder_timeout'' then
        (case toDurationMs v of Inl err \<Rightarrow> Inl (ErrFailedToProcess k err)
         | Inr x \<Rightarrow> Inr (sc\<lparr>ReorderTimeout := x\<rparr>))
      else if k = ''cookie'' then
        (case toBytes v of Inl err \<Rightarrow> Inl (ErrFailedToProcess k err)
         | Inr x \<Rightarrow> Inr (sc\<lparr>Cookie := x\<rparr>))
      else if k = ''peer_cookie'' then
        (case toBytes v of Inl err \<Rightarrow> Inl (ErrFailedToProcess k err)
         | Inr x \<Rightarrow> Inr (sc\<lparr>PeerCookie := x\<rparr>))
      else if k = ''interface_name'' then
        (case toString v of Inl err \<Rightarrow> Inl (ErrFailedToProcess k err)
         | Inr x \<Rightarrow> Inr (sc\<lparr>InterfaceName := x\<rparr>))
      else if k = ''l2spec_type'' then
        (case toL2SpecType v of Inl err \<Rightarrow> Inl (ErrFailedToProcess k err)
         | Inr x \<Rightarrow> Inr (sc\<lparr>L2SpecType := x\<rparr>))
      else Inl (ErrUnrecognised k))"

fun newSessionConfig_loop :: "SessionConfig \<Rightarrow> (string \<times> toml) list \<Rightarrow> error + SessionConfig" where
  "newSessionConfig_loop sc [] = Inr sc"
| "newSessionConfig_loop sc ((k, v) # scfg) =
     (case sessionParam sc k v of
        Inl err \<Rightarrow> Inl err
      | Inr sc' \<Rightarrow> newSessionConfig_loop sc' scfg)"

text \<open>The zero value \<^verbatim>\<open>SessionConfig{}\<close>; a nil slice is the empty list.\<close>

definition SessionConfig_zero :: SessionConfig where
  "SessionConfig_zero =
     \<lparr>SessionID = 0, PeerSessionID = 0, Pseudowire = 0, SeqNum = False, ReorderTimeout = 0,
      Cookie = [], PeerCookie = [], InterfaceName = [], L2SpecType = 0\<rparr>"

definition newSessionConfig :: "(string \<times> toml) list \<Rightarrow> error + SessionConfig" where
  "newSessionConfig scfg = newSessionConfig_loop SessionConfig_zero scfg"

text \<open>\<^verbatim>\<open>t.Sessions[name] = scfg\<close> and the other map stores: replace or add the entry.\<close>

fun loadSessions_loop ::
  "(string \<times> SessionConfig) list \<Rightarrow> (string \<times> toml) list \<Rightarrow> error + (string \<times> SessionConfig) list"
where
  "loadSessions_loop ss [] = Inr ss"
| "loadSessions_loop ss ((name, got) # sessions) =
     (case got of
        TomlMap smap \<Rightarrow>
          (case newSessionConfig smap of
             Inl err \<Rightarrow> Inl (Errorf ''session %v: %v'' [ArgString name, ArgError err])
           | Inr scfg \<Rightarrow> loadSessions_loop (AList.update name scfg ss) sessions)
      | _ \<Rightarrow> Inl (Errorf ''config for session %v isn't a map'' [ArgString name]))"

definition loadSessions :: "TunnelConfig \<Rightarrow> toml \<Rightarrow> error + TunnelConfig" where
  "loadSessions t v =
     (case v of
        TomlMap sessions \<Rightarrow>
          (case loadSessions_loop (Sessions t) sessions of
             Inl err \<Rightarrow> Inl err
           | Inr ss \<Rightarrow> Inr (t\<lparr>Sessions := ss\<rparr>))
      | _ \<Rightarrow> Inl (Errorf (''session instances must be named, e.g. '' @ quoted ''[tunnel.mytunnel.session.mysession]'') []))"

definition tunnelParam :: "TunnelConfig \<Rightarrow> string \<Rightarrow> toml \<Rightarrow> error + TunnelConfig" where
  "tunnelParam tc k v =
     (if k = ''local'' then
        (case toString v of Inl err \<Rightarrow> Inl (ErrFailedToProcess k err)
         | Inr x \<Rightarrow> Inr (tc\<lparr>Local := x\<rparr>))
      else if k = ''peer'' then
        (case toString v of Inl err \<Rightarrow> Inl (ErrFailedToProcess k err)
         | Inr x \<Rightarrow> Inr (tc\<lparr>Peer := x\<rparr>))
      else if k = ''encap'' then
        (case toEncapType v of Inl err \<Rightarrow> Inl (ErrFailedToProcess k err)
         | Inr x \<Rightarrow> Inr (tc\<lparr>Encap := x\<rparr>))
      else if k = ''version'' then
        (case toVersion v of Inl err \<Rightarrow> Inl (ErrFailedToProcess k err)
         | Inr x \<Rightarrow> Inr (tc\<lparr>Version := x\<rparr>))
      else if k = ''tid'' then
        (case toCCID v of Inl err \<Rightarrow> Inl (ErrFailedToProcess k err)
         | Inr x \<Rightarrow> Inr (tc\<lparr>TunnelID := x\<rparr>))
      else if k = ''ptid'' then
        (case toCCID v of Inl err \<Rightarrow> Inl (ErrFailedToProcess k err)
         | Inr x \<Rightarrow> Inr (tc\<lparr>PeerTunnelID := x\<rparr>))
      else if k = ''session'' then
        (case loadSessions tc v of Inl err \<Rightarrow> Inl (ErrFailedToProcess k err)
         | Inr tc' \<Rightarrow> Inr tc')
      else Inl (ErrUnrecognised k))"

fun newTunnelConfig_loop :: "TunnelConfig \<Rightarrow> (string \<times> toml) list \<Rightarrow> error + TunnelConfig" where
  "newTunnelConfig_loop tc [] = Inr tc"
| "newTunnelConfig_loop tc ((k, v) # tcfg) =
     (case tunnelParam tc k v of
        Inl err \<Rightarrow> Inl err
      | Inr tc' \<Rightarrow> newTunnelConfig_loop tc' tcfg)"

definition TunnelConfig_zero :: TunnelConfig where
  "TunnelConfig_zero =
     \<lparr>Local = [], Peer = [], Encap = 0, Version = 0, TunnelID = 0, PeerTunnelID = 0,
      Sessions = [], HostName = [], StopCCNTimeout = 0\<rparr>"

definition newTunnelConfig :: "(string \<times> toml) list \<Rightarrow> error + TunnelConfig" where
  "newTunnelConfig tcfg = newTunnelConfig_loop TunnelConfig_zero tcfg"

fun loadTunnels_loop :: "Config \<Rightarrow> (string \<times> toml) list \<Rightarrow> error + Config" where
  "loadTunnels_loop cfg [] = Inr cfg"
| "loadTunnels_loop cfg ((name, got) # tunnels_tbl) =
     (case got of
        TomlMap tmap \<Rightarrow>
          (case newTunnelConfig tmap of
             Inl err \<Rightarrow> Inl (Errorf ''tunnel %v: %v'' [ArgString name, ArgError err])
           | Inr tcfg \<Rightarrow>
               loadTunnels_loop (cfg\<lparr>tunnels := AList.update name tcfg (tunnels cfg)\<rparr>) tunnels_tbl)
      | _ \<Rightarrow> Inl (Errorf ''config for tunnel %v isn't a map'' [ArgString name]))"

definition loadTunnels :: "Config \<Rightarrow> error + Config" where
  "loadTunnels cfg =
     (case map_of (cm cfg) ''tunnel'' of
        Some got \<Rightarrow>
          (case got of
             TomlMap tunnels_tbl \<Rightarrow> loadTunnels_loop cfg tunnels_tbl
           | _ \<Rightarrow> Inl (Errorf (''tunnel instances must be named, e.g. '' @ quoted ''[tunnel.mytunnel]'') []))
      | None \<Rightarrow> Inl (Errorf ''no tunnel table present'' []))"

text \<open>\<open>tree\<close> is the map that \<^verbatim>\<open>tree.ToMap()\<close> returns.\<close>

definition newConfig :: "(string \<times> toml) list \<Rightarrow> error + Config" where
  "newConfig tree =
     (case loadTunnels \<lparr>cm = tree, tunnels = []\<rparr> of
        Inl err \<Rightarrow> Inl (Errorf ''failed to parse tunnels: %v'' [ArgError err])
      | Inr cfg \<Rightarrow> Inr cfg)"

text \<open>
  The TOML parser is go-toml's: \<open>toml_LoadFile\<close> and \<open>toml_Load\<close> stand for
  \<^verbatim>\<open>toml.LoadFile\<close> and \<^verbatim>\<open>toml.Load\<close>, giving the parsed tree or the parser's error.
\<close>

definition LoadFile :: "(string \<Rightarrow> error + (string \<times> toml) list) \<Rightarrow> string \<Rightarrow> error + Config" where
  "LoadFile toml_LoadFile path =
     (case toml_LoadFile path of
        Inl err \<Rightarrow> Inl (Errorf ''failed to load config file: %v'' [ArgError err])
      | Inr tree \<Rightarrow> newConfig tree)"

definition LoadString :: "(string \<Rightarrow> error + (string \<times> toml) list) \<Rightarrow> string \<Rightarrow> error + Config" where
  "LoadString toml_Load content =
     (case toml_Load content of
        Inl err \<Rightarrow> Inl (Errorf ''failed to load config string: %v'' [ArgError err])
      | Inr tree \<Rightarrow> newConfig tree)"

definition GetTunnels :: "Config \<Rightarrow> (string \<times> TunnelConfig) list" where
  "GetTunnels cfg = tunnels cfg"

definition ToMap :: "Config \<Rightarrow> (string \<times> toml) list" where
  "ToMap cfg = cm cfg"

section \<open>The context: registry, handlers, identifiers\<close>

text \<open>
  A \<^verbatim>\<open>*TunnelConfig\<close> is an address in a store of configurations: \<open>heap\<close> holds the
  cells, the addresses below \<open>hnext\<close> are the allocated ones. The global generator of
  \<^verbatim>\<open>math/rand\<close> is its seed and the number of values drawn since it was seeded.
\<close>

type_synonym addr = nat

record world =
  heap :: "addr \<Rightarrow> TunnelConfig"
  hnext :: addr
  rand_seed :: int
  rand_pos :: nat

text \<open>An event handler is the identity of the value behind the interface.\<close>

type_synonym EventHandler = nat

datatype DataPlane =
    NullDataPlane
  | LinuxNetlinkDataPlane \<comment> \<open>the sentinel value\<close>
  | NetlinkDataPlane
  | UserDataPlane nat

record baseSession =
  bs_name :: string
  bs_cfg :: SessionConfig

record baseTunnel =
  bt_name :: string
  bt_cfg :: addr
  sessionsByName :: "(string \<times> baseSession) list"
  sessionsByID :: "(ControlConnID \<times> baseSession) list"

record Context =
  tunnelsByName :: "(string \<times> baseTunnel) list"
  tunnelsByID :: "(ControlConnID \<times> baseTunnel) list"
  dp :: DataPlane
  callSerial :: "32 word"
  eventHandlers :: "EventHandler list"

text \<open>What \<^verbatim>\<open>u.IP.To4()\<close>, \<^verbatim>\<open>u.IP.To16()\<close> and \<^verbatim>\<open>u.Port\<close> give for a resolved address.\<close>

record UDPAddr =
  IP_To4 :: "8 word list option"
  IP_To16 :: "8 word list option"
  Port :: int

datatype Sockaddr =
    SockaddrInet4 int "8 word list"
  | SockaddrInet6 int "8 word list"
  | SockaddrL2TPIP "8 word list" "32 word"
  | SockaddrL2TPIP6 "8 word list" "32 word"

text \<open>
  What the code asks of its surroundings: the generator of \<^verbatim>\<open>math/rand\<close> (the value drawn
  at each position after a seed), the clock, \<^verbatim>\<open>os.Hostname\<close>, \<^verbatim>\<open>net.ResolveUDPAddr\<close>, and
  the constructors that are not among the sources, \<^verbatim>\<open>newNetlinkDataPlane\<close> and
  \<^verbatim>\<open>newDynamicTunnel\<close>, \<^verbatim>\<open>newQuiescentTunnel\<close>, \<^verbatim>\<open>newStaticTunnel\<close>, each by the error it
  returns, if any.
\<close>

record env =
  prng :: "int \<Rightarrow> nat \<Rightarrow> 32 word"
  time_Now_UnixNano :: int
  os_Hostname :: "error + string"
  net_ResolveUDPAddr :: "string \<Rightarrow> error + UDPAddr"
  newNetlinkDataPlane :: "error + DataPlane"
  newDynamicTunnel_err :: "string \<Rightarrow> Sockaddr \<Rightarrow> Sockaddr \<Rightarrow> TunnelConfig \<Rightarrow> error option"
  newQuiescentTunnel_err :: "string \<Rightarrow> Sockaddr \<Rightarrow> Sockaddr \<Rightarrow> TunnelConfig \<Rightarrow> error option"
  newStaticTunnel_err :: "string \<Rightarrow> Sockaddr \<Rightarrow> Sockaddr \<Rightarrow> TunnelConfig \<Rightarrow> error option"

definition rand_Seed :: "int \<Rightarrow> world \<Rightarrow> world" where
  "rand_Seed seed w = w\<lparr>rand_seed := seed, rand_pos := 0\<rparr>"

definition rand_Uint32 :: "env \<Rightarrow> world \<Rightarrow> 32 word \<times> world" where
  "rand_Uint32 e w = (prng e (rand_seed w) (rand_pos w), w\<lparr>rand_pos := rand_pos w + 1\<rparr>)"

definition initDataPlane :: "env \<Rightarrow> DataPlane option \<Rightarrow> error + DataPlane" where
  "initDataPlane e d =
     (case d of
        None \<Rightarrow> Inr NullDataPlane
      | Some d' \<Rightarrow> if d' = LinuxNetlinkDataPlane then newNetlinkDataPlane e else Inr d')"

definition NewContext :: "env \<Rightarrow> DataPlane option \<Rightarrow> world \<Rightarrow> (error + Context) \<times> world" where
  "NewContext e dataPlane w =
     (let w1 = rand_Seed (time_Now_UnixNano e) w in
      case initDataPlane e dataPlane of
        Inl err \<Rightarrow> (Inl (Errorf ''failed to initialise data plane: %v'' [ArgError err]), w1)
      | Inr d \<Rightarrow>
          (let (r, w2) = rand_Uint32 e w1 in
           (Inr \<lparr>tunnelsByName = [], tunnelsByID = [], dp = d, callSerial = r,
                 eventHandlers = []\<rparr>, w2)))"

definition findTunnelByName :: "Context \<Rightarrow> string \<Rightarrow> baseTunnel option" where
  "findTunnelByName ctx name = map_of (tunnelsByName ctx) name"

definition findTunnelByID :: "Context \<Rightarrow> ControlConnID \<Rightarrow> baseTunnel option" where
  "findTunnelByID ctx tid = map_of (tunnelsByID ctx) tid"

text \<open>\<^verbatim>\<open>tunl.getCfg().TunnelID\<close>: the tunnel's configuration is read through its pointer.\<close>

definition getTunnelID :: "world \<Rightarrow> baseTunnel \<Rightarrow> ControlConnID" where
  "getTunnelID w tunl = TunnelID (heap w (bt_cfg tunl))"

definition linkTunnel :: "world \<Rightarrow> baseTunnel \<Rightarrow> Context \<Rightarrow> Context" where
  "linkTunnel w tunl ctx =
     ctx\<lparr>tunnelsByName := AList.update (bt_name tunl) tunl (tunnelsByName ctx),
         tunnelsByID := AList.update (getTunnelID w tunl) tunl (tunnelsByID ctx)\<rparr>"

definition unlinkTunnel :: "world \<Rightarrow> baseTunnel \<Rightarrow> Context \<Rightarrow> Context" where
  "unlinkTunnel w tunl ctx =
     ctx\<lparr>tunnelsByName := AList.delete (bt_name tunl) (tunnelsByName ctx),
         tunnelsByID := AList.delete (getTunnelID w tunl) (tunnelsByID ctx)\<rparr>"

definition allocCallSerial :: "Context \<Rightarrow> 32 word \<times> Context" where
  "allocCallSerial ctx =
     (let ctx' = ctx\<lparr>callSerial := callSerial ctx + 1\<rparr> in (callSerial ctx', ctx'))"

text \<open>\<open>n\<close> calls of \<^verbatim>\<open>allocCallSerial\<close> on one context, one after the other.\<close>

fun allocCallSerials :: "nat \<Rightarrow> Context \<Rightarrow> 32 word list \<times> Context" where
  "allocCallSerials 0 ctx = ([], ctx)"
| "allocCallSerials (Suc n) ctx =
     (let (s, ctx') = allocCallSerial ctx;
          (ss, ctx'') = allocCallSerials n ctx'
      in (s # ss, ctx''))"

definition generateControlConnID ::
  "env \<Rightarrow> ProtocolVersion \<Rightarrow> world \<Rightarrow> (error + ControlConnID) \<times> world" where
  "generateControlConnID e version w =
     (if version = ProtocolVersion2 then
        (let (r, w') = rand_Uint32 e w in (Inr (ucast (ucast r :: 16 word)), w'))
      else if version = ProtocolVersion3 then
        (let (r, w') = rand_Uint32 e w in (Inr r, w'))
      else (Inl (Errorf ''unhandled version %v'' [ArgInt version]), w))"

text \<open>The loop of \<^verbatim>\<open>allocTid\<close> with \<open>n\<close> of its 10 rounds left.\<close>

fun allocTid_loop ::
  "env \<Rightarrow> Context \<Rightarrow> ProtocolVersion \<Rightarrow> nat \<Rightarrow> world \<Rightarrow> (error + ControlConnID) \<times> world" where
  "allocTid_loop e ctx version 0 w = (Inl (Errorf ''ID space exhausted'' []), w)"
| "allocTid_loop e ctx version (Suc n) w =
     (case generateControlConnID e version w of
        (Inl err, w') \<Rightarrow> (Inl (Errorf ''failed to generate tunnel ID: %v'' [ArgError err]), w')
      | (Inr cid, w') \<Rightarrow>
          if findTunnelByID ctx cid = None then (Inr cid, w')
          else allocTid_loop e ctx version n w')"

definition allocTid ::
  "env \<Rightarrow> Context \<Rightarrow> ProtocolVersion \<Rightarrow> world \<Rightarrow> (error + ControlConnID) \<times> world" where
  "allocTid e ctx version w = allocTid_loop e ctx version 10 w"

definition findSessionByName :: "baseTunnel \<Rightarrow> string \<Rightarrow> baseSession option" where
  "findSessionByName bt name = map_of (sessionsByName bt) name"

definition findSessionByID :: "baseTunnel \<Rightarrow> ControlConnID \<Rightarrow> baseSession option" where
  "findSessionByID bt sid = map_of (sessionsByID bt) sid"

fun allocSid_loop ::
  "env \<Rightarrow> baseTunnel \<Rightarrow> nat \<Rightarrow> world \<Rightarrow> (error + ControlConnID) \<times> world" where
  "allocSid_loop e bt 0 w = (Inl (Errorf ''ID space exhausted'' []), w)"
| "allocSid_loop e bt (Suc n) w =
     (case generateControlConnID e (Version (heap w (bt_cfg bt))) w of
        (Inl err, w') \<Rightarrow> (Inl (Errorf ''failed to generate session ID: %v'' [ArgError err]), w')
      | (Inr cid, w') \<Rightarrow>
          if findSessionByID bt cid = None then (Inr cid, w')
          else allocSid_loop e bt n w')"

definition allocSid :: "env \<Rightarrow> baseTunnel \<Rightarrow> world \<Rightarrow> (error + ControlConnID) \<times> world" where
  "allocSid e bt w = allocSid_loop e bt 10 w"

subsection \<open>Event handlers\<close>

definition RegisterEventHandler :: "EventHandler \<Rightarrow> Context \<Rightarrow> Context" where
  "RegisterEventHandler handler ctx = ctx\<lparr>eventHandlers := eventHandlers ctx @ [handler]\<rparr>"

text \<open>
  The loop of \<^verbatim>\<open>UnregisterEventHandler\<close>: \<open>hs\<close> is \<^verbatim>\<open>ctx.eventHandlers\<close>, \<open>i\<close> the index of
  the round and \<open>rest\<close> the elements from \<open>i\<close> on. At the first element equal to the
  handler the list becomes \<^verbatim>\<open>append(ctx.eventHandlers[:], ctx.eventHandlers[i+1:]...)\<close>,
  the whole slice followed by its elements after \<open>i\<close>, and the loop ends.
\<close>

fun UnregisterEventHandler_loop ::
  "EventHandler list \<Rightarrow> nat \<Rightarrow> EventHandler list \<Rightarrow> EventHandler \<Rightarrow> EventHandler list" where
  "UnregisterEventHandler_loop hs i [] handler = hs"
| "UnregisterEventHandler_loop hs i (hdlr # rest) handler =
     (if hdlr = handler then hs @ drop (i + 1) hs
      else UnregisterEventHandler_loop hs (i + 1) rest handler)"

definition UnregisterEventHandler :: "EventHandler \<Rightarrow> Context \<Rightarrow> Context" where
  "UnregisterEventHandler handler ctx =
     ctx\<lparr>eventHandlers :=
           UnregisterEventHandler_loop (eventHandlers ctx) 0 (eventHandlers ctx) handler\<rparr>"

text \<open>The calls \<^verbatim>\<open>hdlr.HandleEvent(event)\<close> that one dispatch makes, in order.\<close>

definition handleUserEvent :: "Context \<Rightarrow> 'ev \<Rightarrow> (EventHandler \<times> 'ev) list" where
  "handleUserEvent ctx event = map (\<lambda>hdlr. (hdlr, event)) (eventHandlers ctx)"

subsection \<open>Closing the context\<close>

text \<open>
  The calls that leave the context: \<^verbatim>\<open>tunl.Close()\<close> on a tunnel and \<^verbatim>\<open>ctx.dp.Close()\<close>.
  The tunnel types and the data planes are not among the sources, so a call is recorded
  and not followed.
\<close>

datatype call =
    TunnelClose baseTunnel
  | DataPlaneClose DataPlane

text \<open>
  The first loop of \<^verbatim>\<open>Close\<close>, over the entries of \<^verbatim>\<open>ctx.tunnelsByName\<close>. Each round
  deletes the entry it is at, so every entry of the map is visited.
\<close>

fun Close_loop ::
  "world \<Rightarrow> (string \<times> baseTunnel) list \<Rightarrow> Context \<times> baseTunnel list \<Rightarrow> Context \<times> baseTunnel list"
where
  "Close_loop w [] (ctx, tunls) = (ctx, tunls)"
| "Close_loop w ((name, tunl) # rest) (ctx, tunls) =
     Close_loop w rest
       (ctx\<lparr>tunnelsByName := AList.delete name (tunnelsByName ctx),
            tunnelsByID := AList.delete (getTunnelID w tunl) (tunnelsByID ctx)\<rparr>,
        tunls @ [tunl])"

definition Close :: "world \<Rightarrow> Context \<Rightarrow> Context \<times> call list" where
  "Close w ctx =
     (let (ctx', tunls) = Close_loop w (tunnelsByName ctx) (ctx, [])
      in (ctx', map TunnelClose tunls @ [DataPlaneClose (dp ctx')]))"

subsection \<open>Tunnel addresses\<close>

definition newUDPTunnelAddress :: "env \<Rightarrow> string \<Rightarrow> error + Sockaddr" where
  "newUDPTunnelAddress e address =
     (case net_ResolveUDPAddr e address of
        Inl err \<Rightarrow> Inl (Errorf ''resolve %v: %v'' [ArgString address, ArgError err])
      | Inr u \<Rightarrow>
          (case IP_To4 u of
             Some b \<Rightarrow> Inr (SockaddrInet4 (Port u) [b ! 0, b ! 1, b ! 2, b ! 3])
           | None \<Rightarrow>
               (case IP_To16 u of
                  Some b \<Rightarrow> Inr (SockaddrInet6 (Port u) (map (\<lambda>i. b ! i) [0..<16]))
                | None \<Rightarrow> Inl (Errorf ''unhandled address family'' []))))"

definition newUDPAddressPair :: "env \<Rightarrow> string \<Rightarrow> string \<Rightarrow> error + Sockaddr \<times> Sockaddr" where
  "newUDPAddressPair e local remote =
     (case newUDPTunnelAddress e remote of
        Inl err \<Rightarrow> Inl (Errorf ''remote address %q: %v'' [ArgString remote, ArgError err])
      | Inr sap \<Rightarrow>
          if local \<noteq> [] then
            (case newUDPTunnelAddress e local of
               Inl err \<Rightarrow> Inl (Errorf ''local address %q: %v'' [ArgString local, ArgError err])
             | Inr sal \<Rightarrow> Inr (sal, sap))
          else
            (case sap of
               SockaddrInet4 _ _ \<Rightarrow> Inr (SockaddrInet4 0 (replicate 4 0), sap)
             | SockaddrInet6 _ _ \<Rightarrow> Inr (SockaddrInet6 0 (replicate 16 0), sap)
             | _ \<Rightarrow> Inl (Errorf ''unhanded address family'' [])))"

definition newIPTunnelAddress :: "env \<Rightarrow> string \<Rightarrow> ControlConnID \<Rightarrow> error + Sockaddr" where
  "newIPTunnelAddress e address ccid =
     (case net_ResolveUDPAddr e address of
        Inl err \<Rightarrow> Inl (Errorf ''resolve %v: %v'' [ArgString address, ArgError err])
      | Inr u \<Rightarrow>
          (case IP_To4 u of
             Some b \<Rightarrow> Inr (SockaddrL2TPIP [b ! 0, b ! 1, b ! 2, b ! 3] ccid)
           | None \<Rightarrow>
               (case IP_To16 u of
                  Some b \<Rightarrow> Inr (SockaddrL2TPIP6 (map (\<lambda>i. b ! i) [0..<16]) ccid)
                | None \<Rightarrow> Inl (Errorf ''unhandled address family'' []))))"

definition newIPAddressPair ::
  "env \<Rightarrow> string \<Rightarrow> ControlConnID \<Rightarrow> string \<Rightarrow> ControlConnID \<Rightarrow> error + Sockaddr \<times> Sockaddr" where
  "newIPAddressPair e local ccid remote pccid =
     (case newIPTunnelAddress e remote pccid of
        Inl err \<Rightarrow> Inl (Errorf ''remote address %q: %v'' [ArgString remote, ArgError err])
      | Inr sap \<Rightarrow>
          if local \<noteq> [] then
            (case newIPTunnelAddress e local ccid of
               Inl err \<Rightarrow> Inl (Errorf ''local address %q: %v'' [ArgString local, ArgError err])
             | Inr sal \<Rightarrow> Inr (sal, sap))
          else
            (case sap of
               SockaddrL2TPIP _ _ \<Rightarrow> Inr (SockaddrL2TPIP (replicate 4 0) 0, sap)
             | SockaddrL2TPIP6 _ _ \<Rightarrow> Inr (SockaddrL2TPIP6 (replicate 16 0) 0, sap)
             | _ \<Rightarrow> Inl (Errorf ''unhanded address family'' [])))"

text \<open>The \<^verbatim>\<open>switch myCfg.Encap\<close> that the three factories share.\<close>

definition tunnelAddresses :: "env \<Rightarrow> TunnelConfig \<Rightarrow> error + Sockaddr \<times> Sockaddr" where
  "tunnelAddresses e myCfg =
     (if Encap myCfg = EncapTypeUDP then newUDPAddressPair e (Local myCfg) (Peer myCfg)
      else if Encap myCfg = EncapTypeIP then
        newIPAddressPair e (Local myCfg) (TunnelID myCfg) (Peer myCfg) (PeerTunnelID myCfg)
      else Inl (Errorf ''unrecognised encapsulation type %v'' [ArgInt (Encap myCfg)]))"

subsection \<open>The tunnel factories\<close>

definition newBaseTunnel :: "string \<Rightarrow> addr \<Rightarrow> baseTunnel" where
  "newBaseTunnel name config =
     \<lparr>bt_name = name, bt_cfg = config, sessionsByName = [], sessionsByID = []\<rparr>"

text \<open>
  The call of a tunnel constructor on \<^verbatim>\<open>&myCfg\<close>. The constructor returns its error, or
  the tunnel that \<^verbatim>\<open>newBaseTunnel\<close> builds on the name and on the address of the
  factory's copy of the configuration: the copy is a variable of the factory, a cell of
  its own in the store.
\<close>

definition newTunnel ::
  "error option \<Rightarrow> string \<Rightarrow> TunnelConfig \<Rightarrow> world \<Rightarrow> (error + baseTunnel) \<times> world" where
  "newTunnel failure name myCfg w =
     (case failure of
        Some err \<Rightarrow> (Inl err, w)
      | None \<Rightarrow>
          (Inr (newBaseTunnel name (hnext w)),
           w\<lparr>heap := (heap w)(hnext w := myCfg), hnext := hnext w + 1\<rparr>))"

text \<open>
  The end of each factory, from the address switch to \<^verbatim>\<open>ctx.linkTunnel(t)\<close>;
  \<open>ctor\<close> is the error of the factory's constructor.
\<close>

definition createAndLink ::
  "env \<Rightarrow> (string \<Rightarrow> Sockaddr \<Rightarrow> Sockaddr \<Rightarrow> TunnelConfig \<Rightarrow> error option) \<Rightarrow> string \<Rightarrow>
   TunnelConfig \<Rightarrow> Context \<Rightarrow> world \<Rightarrow> (error + baseTunnel) \<times> Context \<times> world" where
  "createAndLink e ctor name myCfg ctx w =
     (case tunnelAddresses e myCfg of
        Inl err \<Rightarrow>
          (Inl (Errorf ''failed to initialise tunnel addresses: %v'' [ArgError err]), ctx, w)
      | Inr (sal, sap) \<Rightarrow>
          (case newTunnel (ctor name sal sap myCfg) name myCfg w of
             (Inl err, w') \<Rightarrow> (Inl err, ctx, w')
           | (Inr t, w') \<Rightarrow> (Inr t, linkTunnel w' t ctx, w')))"

definition NewDynamicTunnel ::
  "env \<Rightarrow> string \<Rightarrow> addr option \<Rightarrow> Context \<Rightarrow> world \<Rightarrow> (error + baseTunnel) \<times> Context \<times> world" where
  "NewDynamicTunnel e name cfg ctx w =
     (case cfg of
        None \<Rightarrow> (Inl (Errorf ''invalid nil config'' []), ctx, w)
      | Some p \<Rightarrow>
          (let myCfg = heap w p in
           if findTunnelByName ctx name \<noteq> None then
             (Inl (Errorf ''already have tunnel %q'' [ArgString name]), ctx, w)
           else
             (case (if HostName myCfg = [] then
                      (case os_Hostname e of
                         Inl err \<Rightarrow>
                           Inl (Errorf ''failed to look up host name: %v'' [ArgError err])
                       | Inr hn \<Rightarrow> Inr (myCfg\<lparr>HostName := hn\<rparr>))
                    else Inr myCfg) of
                Inl err \<Rightarrow> (Inl err, ctx, w)
              | Inr myCfg \<Rightarrow>
                  (let myCfg = (if StopCCNTimeout myCfg = 0
                                then myCfg\<lparr>StopCCNTimeout := 31 * Second\<rparr> else myCfg) in
                   if Version myCfg \<noteq> ProtocolVersion3 \<and> Encap myCfg = EncapTypeIP then
                     (Inl (Errorf ''IP encapsulation only supported for L2TPv3 tunnels'' []),
                      ctx, w)
                   else if Version myCfg = ProtocolVersion2 \<and> TunnelID myCfg > 65535 then
                     (Inl (Errorf ''L2TPv2 connection ID %v out of range''
                             [ArgID (TunnelID myCfg)]), ctx, w)
                   else if PeerTunnelID myCfg \<noteq> 0 then
                     (Inl (Errorf
                        ''L2TPv2 peer connection ID cannot be specified for dynamic tunnels'' []),
                      ctx, w)
                   else if Peer myCfg = [] then
                     (Inl (Errorf ''must specify peer address for dynamic tunnel'' []), ctx, w)
                   else if TunnelID myCfg \<noteq> 0 then
                     (if findTunnelByID ctx (TunnelID myCfg) \<noteq> None then
                        (Inl (Errorf ''already have tunnel with TID %q''
                                [ArgID (TunnelID myCfg)]), ctx, w)
                      else createAndLink e (newDynamicTunnel_err e) name myCfg ctx w)
                   else
                     (case allocTid e ctx (Version myCfg) w of
                        (Inl err, w') \<Rightarrow>
                          (Inl (Errorf ''failed to allocate a TID: %q'' [ArgError err]), ctx, w')
                      | (Inr tid, w') \<Rightarrow>
                          createAndLink e (newDynamicTunnel_err e) name
                            (myCfg\<lparr>TunnelID := tid\<rparr>) ctx w')))))"

definition NewQuiescentTunnel ::
  "env \<Rightarrow> string \<Rightarrow> addr option \<Rightarrow> Context \<Rightarrow> world \<Rightarrow> (error + baseTunnel) \<times> Context \<times> world" where
  "NewQuiescentTunnel e name cfg ctx w =
     (case cfg of
        None \<Rightarrow> (Inl (Errorf ''invalid nil config'' []), ctx, w)
      | Some p \<Rightarrow>
          (let myCfg = heap w p in
           if findTunnelByName ctx name \<noteq> None then
             (Inl (Errorf ''already have tunnel %q'' [ArgString name]), ctx, w)
           else if Version myCfg \<noteq> ProtocolVersion3 \<and> Encap myCfg = EncapTypeIP then
             (Inl (Errorf ''IP encapsulation only supported for L2TPv3 tunnels'' []), ctx, w)
           else if Version myCfg = ProtocolVersion2
                   \<and> (TunnelID myCfg = 0 \<or> TunnelID myCfg > 65535) then
             (Inl (Errorf ''L2TPv2 connection ID %v out of range'' [ArgID (TunnelID myCfg)]),
              ctx, w)
           else if Version myCfg = ProtocolVersion2
                   \<and> (PeerTunnelID myCfg = 0 \<or> PeerTunnelID myCfg > 65535) then
             (Inl (Errorf ''L2TPv2 peer connection ID %v out of range''
                     [ArgID (PeerTunnelID myCfg)]), ctx, w)
           else if Version myCfg \<noteq> ProtocolVersion2
                   \<and> (TunnelID myCfg = 0 \<or> PeerTunnelID myCfg = 0) then
             (Inl (Errorf ''L2TPv3 tunnel IDs %v and %v must both be > 0''
                     [ArgID (TunnelID myCfg), ArgID (PeerTunnelID myCfg)]), ctx, w)
           else if Local myCfg = [] then
             (Inl (Errorf ''must specify local address for quiescent tunnel'' []), ctx, w)
           else if Peer myCfg = [] then
             (Inl (Errorf ''must specify peer address for quiescent tunnel'' []), ctx, w)
           else if findTunnelByID ctx (TunnelID myCfg) \<noteq> None then
             (Inl (Errorf ''already have tunnel with TID %q'' [ArgID (TunnelID myCfg)]), ctx, w)
           else createAndLink e (newQuiescentTunnel_err e) name myCfg ctx w))"

definition NewStaticTunnel ::
  "env \<Rightarrow> string \<Rightarrow> addr option \<Rightarrow> Context \<Rightarrow> world \<Rightarrow> (error + baseTunnel) \<times> Context \<times> world" where
  "NewStaticTunnel e name cfg ctx w =
     (case cfg of
        None \<Rightarrow> (Inl (Errorf ''invalid nil config'' []), ctx, w)
      | Some p \<Rightarrow>
          (let myCfg = heap w p in
           if findTunnelByName ctx name \<noteq> None then
             (Inl (Errorf ''already have tunnel %q'' [ArgString name]), ctx, w)
           else if Version myCfg \<noteq> ProtocolVersion3 then
             (Inl (Errorf ''static tunnels can be L2TPv3 only'' []), ctx, w)
           else if TunnelID myCfg = 0 \<or> PeerTunnelID myCfg = 0 then
             (Inl (Errorf ''L2TPv3 tunnel IDs %v and %v must both be > 0''
                     [ArgID (TunnelID myCfg), ArgID (PeerTunnelID myCfg)]), ctx, w)
           else if Local myCfg = [] then
             (Inl (Errorf ''must specify local address for static tunnel'' []), ctx, w)
           else if Peer myCfg = [] then
             (Inl (Errorf ''must specify peer address for static tunnel'' []), ctx, w)
           else if findTunnelByID ctx (TunnelID myCfg) \<noteq> None then
             (Inl (Errorf ''already have tunnel with TID %q'' [ArgID (TunnelID myCfg)]), ctx, w)
           else createAndLink e (newStaticTunnel_err e) name myCfg ctx w))"

section \<open>Example inputs\<close>

text \<open>
  Surroundings in which every library call succeeds: the generator yields the seed plus
  the position, every address resolves to 127.0.0.1:1701.
\<close>

definition env0 :: env where
  "env0 =
     \<lparr>prng = (\<lambda>seed k. word_of_int seed + word_of_nat k),
      time_Now_UnixNano = 42,
      os_Hostname = Inr ''lac1'',
      net_ResolveUDPAddr = (\<lambda>a. Inr \<lparr>IP_To4 = Some [127, 0, 0, 1], IP_To16 = None, Port = 1701\<rparr>),
      newNetlinkDataPlane = Inr NetlinkDataPlane,
      newDynamicTunnel_err = (\<lambda>name sal sap c. None),
      newQuiescentTunnel_err = (\<lambda>name sal sap c. None),
      newStaticTunnel_err = (\<lambda>name sal sap c. None)\<rparr>"

definition world0 :: world where
  "world0 = \<lparr>heap = (\<lambda>a. TunnelConfig_zero), hnext = 0, rand_seed = 0, rand_pos = 0\<rparr>"

text \<open>The context that \<^verbatim>\<open>NewContext(nil, nil)\<close> returns in these surroundings.\<close>

definition ctx0 :: Context where
  "ctx0 = \<lparr>tunnelsByName = [], tunnelsByID = [], dp = NullDataPlane, callSerial = 42,
           eventHandlers = []\<rparr>"

section \<open>Identifier allocation as the specification words it\<close>

text \<open>
  The \<open>k\<close>-th candidate drawn from the generator in state \<open>w\<close>: a random 16-bit value
  for L2TPv2, a random 32-bit value otherwise.
\<close>

definition candidate :: "env \<Rightarrow> ProtocolVersion \<Rightarrow> world \<Rightarrow> nat \<Rightarrow> ControlConnID" where
  "candidate e version w k =
     (let r = prng e (rand_seed w) (rand_pos w + k)
      in if version = ProtocolVersion2 then ucast (ucast r :: 16 word) else r)"

text \<open>
  The first candidate that is not present in the registry, or "ID space exhausted" when
  every candidate of the list is present.
\<close>

definition allocID_spec :: "(ControlConnID \<Rightarrow> bool) \<Rightarrow> ControlConnID list \<Rightarrow> error + ControlConnID" where
  "allocID_spec present cands =
     (case find (\<lambda>c. \<not> present c) cands of
        Some c \<Rightarrow> Inr c
      | None \<Rightarrow> Inl (Errorf ''ID space exhausted'' []))"

text \<open>
  A store whose cells hold an L2TPv3 configuration, a tunnel on cell 0, and registries
  in which the identifiers 0 to 9, or 0 to 8, are taken.
\<close>

definition world3 :: world where
  "world3 =
     \<lparr>heap = (\<lambda>a. TunnelConfig_zero\<lparr>Version := ProtocolVersion3\<rparr>), hnext = 1,
      rand_seed = 0, rand_pos = 0\<rparr>"

definition tunl0 :: baseTunnel where
  "tunl0 = \<lparr>bt_name = ''t0'', bt_cfg = 0, sessionsByName = [], sessionsByID = []\<rparr>"

definition sess0 :: baseSession where
  "sess0 = \<lparr>bs_name = ''s0'', bs_cfg = SessionConfig_zero\<rparr>"

definition ids_upto :: "nat \<Rightarrow> 'a \<Rightarrow> (ControlConnID \<times> 'a) list" where
  "ids_upto n x = map (\<lambda>i. (word_of_nat i, x)) [0..<n]"

text \<open>
  A store with three configurations: L2TPv2 with tunnel identifier 70000, L2TPv3 with a
  peer tunnel identifier, and L2TPv2 with no identifier, host name or timeout set.
\<close>

definition cfg_v2_70000 :: TunnelConfig where
  "cfg_v2_70000 =
     TunnelConfig_zero\<lparr>Peer := ''127.0.0.1:1701'', Version := ProtocolVersion2,
                        TunnelID := 70000\<rparr>"

definition cfg_ptid :: TunnelConfig where
  "cfg_ptid =
     TunnelConfig_zero\<lparr>Peer := ''127.0.0.1:1701'', Version := ProtocolVersion3,
                        PeerTunnelID := 5\<rparr>"

definition cfg_plain :: TunnelConfig where
  "cfg_plain = TunnelConfig_zero\<lparr>Peer := ''127.0.0.1:1701'', Version := ProtocolVersion2\<rparr>"

definition world_cfgs :: world where
  "world_cfgs =
     \<lparr>heap = (\<lambda>a. if a = 0 then cfg_v2_70000 else if a = 1 then cfg_ptid else cfg_plain),
      hnext = 3, rand_seed = 7, rand_pos = 0\<rparr>"

section \<open>The registry a context can reach\<close>

text \<open>
  What holds of the registry of a context between two calls: a Go map has each key once,
  every registered tunnel points to an allocated configuration, and every identifier of
  \<^verbatim>\<open>tunnelsByID\<close> is the \<^verbatim>\<open>TunnelID\<close> of a tunnel registered by name. \<^verbatim>\<open>NewContext\<close>
  establishes it, the three factories and \<^verbatim>\<open>unlinkTunnel\<close> keep it.
\<close>

definition registry_ok :: "world \<Rightarrow> Context \<Rightarrow> bool" where
  "registry_ok w ctx \<longleftrightarrow>
     distinct (map fst (tunnelsByName ctx))
     \<and> distinct (map fst (tunnelsByID ctx))
     \<and> (\<forall>(n, t) \<in> set (tunnelsByName ctx). bt_cfg t < hnext w)
     \<and> (\<forall>(i, t) \<in> set (tunnelsByID ctx).
           \<exists>(n, t') \<in> set (tunnelsByName ctx). getTunnelID w t' = i)"

section \<open>The loader rejects a tree without a tunnel table\<close>



section \<open>Call serial numbers\<close>

lemma allocCallSerials_fst:
  "fst (allocCallSerials n ctx) = map (\<lambda>k. callSerial ctx + of_nat (Suc k)) [0..<n]"
proof (induction n arbitrary: ctx)
  case 0
  then show ?case by simp
next
  case (Suc n)
  have "[0..<Suc n] = 0 # map Suc [0..<n]"
    by (simp add: upt_conv_Cons map_Suc_upt del: upt_Suc)
  then show ?case
    using Suc.IH [of "ctx\<lparr>callSerial := callSerial ctx + 1\<rparr>"]
    by (simp add: allocCallSerial_def Let_def split_beta o_def add.assoc del: upt_Suc)
qed

lemma word32_of_nat_eq:
  assumes "(of_nat m :: 32 word) = of_nat m'"
  shows "m mod 2 ^ 32 = m' mod 2 ^ 32"
proof -
  from assms have "unat (of_nat m :: 32 word) = unat (of_nat m' :: 32 word)"
    by simp
  then show ?thesis by (simp add: unat_of_nat)
qed

lemma distinct_serials:
  assumes "n \<le> 2 ^ 32"
  shows "distinct (map (\<lambda>k. (c :: 32 word) + of_nat (Suc k)) [0..<n])"
proof -
  have "inj_on (\<lambda>k. c + (of_nat (Suc k) :: 32 word)) {0..<n}"
  proof (rule inj_onI)
    fix a b assume a: "a \<in> {0..<n}" and b: "b \<in> {0..<n}"
      and eq: "c + (of_nat (Suc a) :: 32 word) = c + of_nat (Suc b)"
    from eq have "(of_nat (Suc a) :: 32 word) = of_nat (Suc b)"
      by (simp only: add_left_cancel)
    then have "Suc a mod 2 ^ 32 = Suc b mod 2 ^ 32"
      by (rule word32_of_nat_eq)
    moreover have "Suc a \<le> 2 ^ 32" "Suc b \<le> 2 ^ 32" using a b assms by auto
    ultimately show "a = b"
      by (metis Suc_inject le_neq_implies_less mod_less mod_self nat.distinct(1))
  qed
  then show ?thesis by (simp add: distinct_map)
qed

text \<open>
  C7. A context made by \<^verbatim>\<open>NewContext\<close> starts its counter at the first value drawn from
  the freshly seeded generator. Each \<^verbatim>\<open>allocCallSerial\<close> stores and returns the counter
  plus one modulo \<open>2^32\<close>, so fewer than \<open>2^32\<close> successive allocations on a context
  return pairwise different serial numbers.
\<close>

theorem allocCallSerial_unique:
  assumes "fst (NewContext e d w) = Inr ctx_new" and "n < 2 ^ 32"
  shows "callSerial ctx_new = prng e (time_Now_UnixNano e) 0
       \<and> fst (allocCallSerial ctx) = callSerial ctx + 1
       \<and> unat (fst (allocCallSerial ctx)) = (unat (callSerial ctx) + 1) mod 2 ^ 32
       \<and> callSerial (snd (allocCallSerial ctx)) = fst (allocCallSerial ctx)
       \<and> distinct (fst (allocCallSerials n ctx))"
proof -
  have 1: "callSerial ctx_new = prng e (time_Now_UnixNano e) 0"
    using assms(1)
    by (auto simp: NewContext_def Let_def rand_Seed_def rand_Uint32_def split: sum.splits)
  have 2: "fst (allocCallSerial ctx) = callSerial ctx + 1"
    by (simp add: allocCallSerial_def Let_def)
  have 3: "unat (callSerial ctx + 1) = (unat (callSerial ctx) + 1) mod 2 ^ 32"
    by (simp add: unat_word_ariths)
  have 4: "callSerial (snd (allocCallSerial ctx)) = fst (allocCallSerial ctx)"
    by (simp add: allocCallSerial_def Let_def)
  have 5: "distinct (fst (allocCallSerials n ctx))"
    using assms(2) by (simp only: allocCallSerials_fst) (rule distinct_serials, simp)
  from 1 2 3 4 5 show ?thesis by simp
qed

theorem allocCallSerial_unique_witness:
  "fst (NewContext env0 None world0) = Inr ctx0
   \<and> (3 :: nat) < 2 ^ 32
   \<and> callSerial ctx0 = prng env0 (time_Now_UnixNano env0) 0
   \<and> fst (allocCallSerial (ctx0\<lparr>callSerial := 0xFFFFFFFE\<rparr>)) = 0xFFFFFFFF
   \<and> fst (allocCallSerial (ctx0\<lparr>callSerial := 0xFFFFFFFF\<rparr>)) = 0
   \<and> fst (allocCallSerials 3 (ctx0\<lparr>callSerial := 0xFFFFFFFE\<rparr>)) = [0xFFFFFFFF, 0, 1]
   \<and> distinct (fst (allocCallSerials 3 (ctx0\<lparr>callSerial := 0xFFFFFFFE\<rparr>)))"
proof -
  have h1: "fst (NewContext env0 None world0) = Inr ctx0"
    by (simp add: NewContext_def initDataPlane_def rand_Seed_def rand_Uint32_def Let_def
        env0_def world0_def ctx0_def)
  have h2: "(3 :: nat) < 2 ^ 32" by simp
  have s: "fst (allocCallSerials 3 (ctx0\<lparr>callSerial := 0xFFFFFFFE\<rparr>)) = [0xFFFFFFFF, 0, 1]"
    by (simp add: numeral_3_eq_3 allocCallSerial_def Let_def)
  show ?thesis
    using allocCallSerial_unique [OF h1 h2, of "ctx0\<lparr>callSerial := 0xFFFFFFFE\<rparr>"]
      allocCallSerial_unique [OF h1 h2, of "ctx0\<lparr>callSerial := 0xFFFFFFFF\<rparr>"] h1 s
    by simp
qed

section \<open>Event handlers\<close>

lemma UnregisterEventHandler_loop_appends:
  "\<exists>ys. UnregisterEventHandler_loop hs i rest h = hs @ ys"
  by (induction rest arbitrary: i) auto

text \<open>
  C1. \<^verbatim>\<open>UnregisterEventHandler\<close> appends to the whole slice and so removes nothing: after
  \<^verbatim>\<open>RegisterEventHandler(h)\<close> and \<^verbatim>\<open>UnregisterEventHandler(h)\<close>, in every context, a
  dispatch still calls \<open>h\<close>.
\<close>

theorem UnregisterEventHandler_keeps_handler:
  "(h, ev) \<in> set (handleUserEvent (UnregisterEventHandler h (RegisterEventHandler h ctx)) ev)"
proof -
  obtain ys where
    "UnregisterEventHandler_loop (eventHandlers ctx @ [h]) 0 (eventHandlers ctx @ [h]) h
       = (eventHandlers ctx @ [h]) @ ys"
    using UnregisterEventHandler_loop_appends by blast
  then show ?thesis
    by (simp add: handleUserEvent_def UnregisterEventHandler_def RegisterEventHandler_def)
qed

section \<open>Identifier allocation\<close>

lemma generateControlConnID_v23:
  assumes "version = ProtocolVersion2 \<or> version = ProtocolVersion3"
  shows "generateControlConnID e version w
           = (Inr (candidate e version w 0), w\<lparr>rand_pos := rand_pos w + 1\<rparr>)"
  using assms
  by (auto simp: generateControlConnID_def candidate_def rand_Uint32_def Let_def
      ProtocolVersion2_def ProtocolVersion3_def)

lemma candidate_shift:
  "candidate e version (w\<lparr>rand_pos := Suc (rand_pos w)\<rparr>)
     = (\<lambda>k. candidate e version w (Suc k))"
  by (rule ext) (simp add: candidate_def)

lemma upt_Suc_shift: "[0..<Suc n] = 0 # map Suc [0..<n]"
  by (simp add: upt_conv_Cons map_Suc_upt del: upt_Suc)

lemma allocTid_loop_spec:
  assumes "version = ProtocolVersion2 \<or> version = ProtocolVersion3"
  shows "fst (allocTid_loop e ctx version n w)
           = allocID_spec (\<lambda>c. findTunnelByID ctx c \<noteq> None)
               (map (candidate e version w) [0..<n])"
proof (induction n arbitrary: w)
  case 0
  then show ?case by (simp add: allocID_spec_def)
next
  case (Suc n)
  show ?case
    using Suc.IH [of "w\<lparr>rand_pos := rand_pos w + 1\<rparr>"]
    by (simp add: generateControlConnID_v23 [OF assms] upt_Suc_shift allocID_spec_def
        candidate_shift o_def del: upt_Suc)
qed

lemma allocSid_loop_spec:
  assumes "Version (heap w (bt_cfg bt)) = version"
    and "version = ProtocolVersion2 \<or> version = ProtocolVersion3"
  shows "fst (allocSid_loop e bt n w)
           = allocID_spec (\<lambda>c. findSessionByID bt c \<noteq> None)
               (map (candidate e version w) [0..<n])"
  using assms(1)
proof (induction n arbitrary: w)
  case 0
  then show ?case by (simp add: allocID_spec_def)
next
  case (Suc n)
  show ?case
    using Suc.IH [of "w\<lparr>rand_pos := rand_pos w + 1\<rparr>"] Suc.prems
    by (simp add: generateControlConnID_v23 [OF assms(2)] upt_Suc_shift allocID_spec_def
        candidate_shift o_def del: upt_Suc)
qed

lemma allocID_spec_exhausted:
  "allocID_spec present cands = Inl (Errorf ''ID space exhausted'' [])
     \<longleftrightarrow> (\<forall>c \<in> set cands. present c)"
proof (cases "find (\<lambda>c. \<not> present c) cands")
  case None
  then have "\<forall>c \<in> set cands. present c"
    by (auto simp: find_None_iff)
  with None show ?thesis by (simp add: allocID_spec_def)
next
  case (Some c)
  then have "c \<in> set cands" "\<not> present c"
    by (auto simp: find_Some_iff)
  with Some show ?thesis by (auto simp: allocID_spec_def)
qed

lemma allocID_spec_first:
  assumes "k < length cands" "\<not> present (cands ! k)" "\<forall>j < k. present (cands ! j)"
  shows "allocID_spec present cands = Inr (cands ! k)"
proof -
  have "find (\<lambda>c. \<not> present c) cands = Some (cands ! k)"
    using assms by (auto simp: find_Some_iff)
  then show ?thesis by (simp add: allocID_spec_def)
qed

lemma ucast16_le:
  "(ucast (x :: 16 word) :: 32 word) \<le> 65535"
proof -
  have "uint (ucast x :: 32 word) = uint x"
    by (rule uint_up_ucast) (simp add: is_up)
  moreover have "uint x < 2 ^ 16"
    using uint_lt2p [of x] by simp
  ultimately show ?thesis by (simp add: word_le_def)
qed

lemma candidate_v2_16bit: "candidate e ProtocolVersion2 w k \<le> 65535"
  by (simp add: candidate_def ucast16_le)



section \<open>The tunnel factories\<close>


lemma generateControlConnID_frame:
  "heap (snd (generateControlConnID e version w)) = heap w
   \<and> hnext (snd (generateControlConnID e version w)) = hnext w"
  by (simp add: generateControlConnID_def rand_Uint32_def Let_def)

lemma allocTid_loop_frame:
  "heap (snd (allocTid_loop e ctx version n w)) = heap w
   \<and> hnext (snd (allocTid_loop e ctx version n w)) = hnext w
   \<and> (\<forall>tid. fst (allocTid_loop e ctx version n w) = Inr tid \<longrightarrow> findTunnelByID ctx tid = None)"
proof (induction n arbitrary: w)
  case 0
  then show ?case by simp
next
  case (Suc n)
  obtain r w' where g: "generateControlConnID e version w = (r, w')"
    by (cases "generateControlConnID e version w")
  with generateControlConnID_frame [of e version w]
  have f: "heap w' = heap w" "hnext w' = hnext w" by simp_all
  show ?case
    using g f Suc.IH [of w'] by (cases r) simp_all
qed

lemma allocTid_frame:
  assumes "allocTid e ctx version w = (r, w')"
  shows "heap w' = heap w" and "hnext w' = hnext w"
    and "r = Inr tid \<Longrightarrow> findTunnelByID ctx tid = None"
  using allocTid_loop_frame [of e ctx version 10 w] assms by (simp_all add: allocTid_def)

lemma NewDynamicTunnel_cases:
  assumes "NewDynamicTunnel e name cfg ctx w = (r, ctx', w')"
  shows "(\<exists>err. r = Inl err \<and> ctx' = ctx \<and> heap w' = heap w \<and> hnext w' = hnext w)
       \<or> (\<exists>c w1. heap w1 = heap w \<and> hnext w1 = hnext w
             \<and> findTunnelByName ctx name = None \<and> findTunnelByID ctx (TunnelID c) = None
             \<and> createAndLink e (newDynamicTunnel_err e) name c ctx w1 = (r, ctx', w'))"
proof (cases cfg)
  case None
  with assms show ?thesis by (auto simp: NewDynamicTunnel_def)
next
  case (Some p)
  show ?thesis
  proof (cases "findTunnelByName ctx name = None")
    case False
    with Some assms show ?thesis by (auto simp: NewDynamicTunnel_def Let_def)
  next
    case noclash: True
    define c1 where "c1 = (if HostName (heap w p) = [] then
                      (case os_Hostname e of
                         Inl err \<Rightarrow>
                           Inl (Errorf ''failed to look up host name: %v'' [ArgError err])
                       | Inr hn \<Rightarrow> Inr ((heap w p)\<lparr>HostName := hn\<rparr>))
                    else Inr (heap w p))"
    show ?thesis
    proof (cases c1)
      case (Inl err)
      with Some noclash assms show ?thesis
        by (auto simp: NewDynamicTunnel_def Let_def c1_def)
    next
      case (Inr c2)
      define c where "c = (if StopCCNTimeout c2 = 0
                                then c2\<lparr>StopCCNTimeout := 31 * Second\<rparr> else c2)"
      have body: "(if Version c \<noteq> ProtocolVersion3 \<and> Encap c = EncapTypeIP then
                     (Inl (Errorf ''IP encapsulation only supported for L2TPv3 tunnels'' []),
                      ctx, w)
                   else if Version c = ProtocolVersion2 \<and> TunnelID c > 65535 then
                     (Inl (Errorf ''L2TPv2 connection ID %v out of range''
                             [ArgID (TunnelID c)]), ctx, w)
                   else if PeerTunnelID c \<noteq> 0 then
                     (Inl (Errorf
                        ''L2TPv2 peer connection ID cannot be specified for dynamic tunnels'' []),
                      ctx, w)
                   else if Peer c = [] then
                     (Inl (Errorf ''must specify peer address for dynamic tunnel'' []), ctx, w)
                   else if TunnelID c \<noteq> 0 then
                     (if findTunnelByID ctx (TunnelID c) \<noteq> None then
                        (Inl (Errorf ''already have tunnel with TID %q''
                                [ArgID (TunnelID c)]), ctx, w)
                      else createAndLink e (newDynamicTunnel_err e) name c ctx w)
                   else
                     (case allocTid e ctx (Version c) w of
                        (Inl err, w') \<Rightarrow>
                          (Inl (Errorf ''failed to allocate a TID: %q'' [ArgError err]), ctx, w')
                      | (Inr tid, w') \<Rightarrow>
                          createAndLink e (newDynamicTunnel_err e) name
                            (c\<lparr>TunnelID := tid\<rparr>) ctx w')) = (r, ctx', w')"
        using Some noclash assms Inr
        by (simp add: NewDynamicTunnel_def Let_def c1_def [symmetric] c_def [symmetric])
      obtain ar aw where al: "allocTid e ctx (Version c) w = (ar, aw)"
        by (cases "allocTid e ctx (Version c) w")
      note fr = allocTid_frame [OF al]
      show ?thesis
      proof (cases "TunnelID c = 0")
        case False
        with body have
          "(\<exists>err. r = Inl err \<and> ctx' = ctx \<and> w' = w)
           \<or> (findTunnelByID ctx (TunnelID c) = None
               \<and> createAndLink e (newDynamicTunnel_err e) name c ctx w = (r, ctx', w'))"
          by (auto split: if_splits)
        with noclash show ?thesis by blast
      next
        case True
        show ?thesis
        proof (cases ar)
          case (Inl aerr)
          with body al True have "\<exists>err. r = Inl err \<and> ctx' = ctx \<and> (w' = w \<or> w' = aw)"
            by (auto split: if_splits)
          with fr(1,2) show ?thesis by auto
        next
          case (Inr b)
          have tid: "TunnelID (c\<lparr>TunnelID := b\<rparr>) = b" by simp
          from body al True Inr have
            "(\<exists>err. r = Inl err \<and> ctx' = ctx \<and> w' = w)
             \<or> createAndLink e (newDynamicTunnel_err e) name (c\<lparr>TunnelID := b\<rparr>) ctx aw
                 = (r, ctx', w')"
            by (auto split: if_splits)
          then show ?thesis
          proof
            assume "\<exists>err. r = Inl err \<and> ctx' = ctx \<and> w' = w"
            then show ?thesis by blast
          next
            assume cl: "createAndLink e (newDynamicTunnel_err e) name (c\<lparr>TunnelID := b\<rparr>) ctx aw
                 = (r, ctx', w')"
            have "findTunnelByID ctx (TunnelID (c\<lparr>TunnelID := b\<rparr>)) = None"
              using fr(3) [OF Inr] by simp
            with cl fr(1,2) noclash show ?thesis by blast
          qed
        qed
      qed
    qed
  qed
qed

lemma NewQuiescentTunnel_cases:
  assumes "NewQuiescentTunnel e name cfg ctx w = (r, ctx', w')"
  shows "(\<exists>err. r = Inl err \<and> ctx' = ctx \<and> heap w' = heap w \<and> hnext w' = hnext w)
       \<or> (\<exists>c w1. heap w1 = heap w \<and> hnext w1 = hnext w
             \<and> findTunnelByName ctx name = None \<and> findTunnelByID ctx (TunnelID c) = None
             \<and> createAndLink e (newQuiescentTunnel_err e) name c ctx w1 = (r, ctx', w'))"
proof (cases cfg)
  case None
  with assms show ?thesis by (auto simp: NewQuiescentTunnel_def)
next
  case (Some p)
  show ?thesis
  proof (cases "findTunnelByName ctx name = None")
    case False
    with Some assms show ?thesis by (auto simp: NewQuiescentTunnel_def Let_def)
  next
    case noclash: True
    from Some noclash assms have
      "(\<exists>err. r = Inl err \<and> ctx' = ctx \<and> w' = w)
       \<or> (findTunnelByID ctx (TunnelID (heap w p)) = None
           \<and> createAndLink e (newQuiescentTunnel_err e) name (heap w p) ctx w = (r, ctx', w'))"
      by (simp add: NewQuiescentTunnel_def Let_def split: if_splits) blast+
    with noclash show ?thesis by blast
  qed
qed

lemma NewStaticTunnel_cases:
  assumes "NewStaticTunnel e name cfg ctx w = (r, ctx', w')"
  shows "(\<exists>err. r = Inl err \<and> ctx' = ctx \<and> heap w' = heap w \<and> hnext w' = hnext w)
       \<or> (\<exists>c w1. heap w1 = heap w \<and> hnext w1 = hnext w
             \<and> findTunnelByName ctx name = None \<and> findTunnelByID ctx (TunnelID c) = None
             \<and> createAndLink e (newStaticTunnel_err e) name c ctx w1 = (r, ctx', w'))"
proof (cases cfg)
  case None
  with assms show ?thesis by (auto simp: NewStaticTunnel_def)
next
  case (Some p)
  show ?thesis
  proof (cases "findTunnelByName ctx name = None")
    case False
    with Some assms show ?thesis by (auto simp: NewStaticTunnel_def Let_def)
  next
    case noclash: True
    from Some noclash assms have
      "(\<exists>err. r = Inl err \<and> ctx' = ctx \<and> w' = w)
       \<or> (findTunnelByID ctx (TunnelID (heap w p)) = None
           \<and> createAndLink e (newStaticTunnel_err e) name (heap w p) ctx w = (r, ctx', w'))"
      by (simp add: NewStaticTunnel_def Let_def split: if_splits) blast+
    with noclash show ?thesis by blast
  qed
qed


lemma createAndLink_frame:
  assumes "createAndLink e ctor name c ctx w = (r, ctx', w')" and "q < hnext w"
  shows "heap w' q = heap w q"
  using assms
  by (auto simp: createAndLink_def newTunnel_def split: sum.splits prod.splits option.splits)

lemma createAndLink_fresh:
  assumes "createAndLink e ctor name c ctx w = (Inr t, ctx', w')"
  shows "bt_cfg t = hnext w"
  using assms
  by (auto simp: createAndLink_def newTunnel_def newBaseTunnel_def
      split: sum.splits prod.splits option.splits)

text \<open>
  C9. Each factory works on a copy of the caller's \<^verbatim>\<open>TunnelConfig\<close>: whatever the
  outcome, the cell the caller's pointer names holds afterwards what it held before, and a
  tunnel that is returned points to another cell.
\<close>

theorem factories_copy_config:
  assumes "p < hnext w"
  shows "heap (snd (snd (NewDynamicTunnel e name (Some p) ctx w))) p = heap w p
       \<and> heap (snd (snd (NewQuiescentTunnel e name (Some p) ctx w))) p = heap w p
       \<and> heap (snd (snd (NewStaticTunnel e name (Some p) ctx w))) p = heap w p
       \<and> (\<forall>t. fst (NewDynamicTunnel e name (Some p) ctx w) = Inr t \<longrightarrow> bt_cfg t \<noteq> p)
       \<and> (\<forall>t. fst (NewQuiescentTunnel e name (Some p) ctx w) = Inr t \<longrightarrow> bt_cfg t \<noteq> p)
       \<and> (\<forall>t. fst (NewStaticTunnel e name (Some p) ctx w) = Inr t \<longrightarrow> bt_cfg t \<noteq> p)"
proof -
  have frame: "heap w' p = heap w p \<and> (\<forall>t. r = Inr t \<longrightarrow> bt_cfg t \<noteq> p)"
    if "(\<exists>err. r = Inl err \<and> ctx' = ctx \<and> heap w' = heap w \<and> hnext w' = hnext w)
       \<or> (\<exists>c w1. heap w1 = heap w \<and> hnext w1 = hnext w
             \<and> findTunnelByName ctx name = None \<and> findTunnelByID ctx (TunnelID c) = None
             \<and> createAndLink e ctor name c ctx w1 = (r, ctx', w'))"
    for r ctx' w' ctor
    using that
  proof
    assume "\<exists>err. r = Inl err \<and> ctx' = ctx \<and> heap w' = heap w \<and> hnext w' = hnext w"
    then show ?thesis by auto
  next
    assume "\<exists>c w1. heap w1 = heap w \<and> hnext w1 = hnext w
             \<and> findTunnelByName ctx name = None \<and> findTunnelByID ctx (TunnelID c) = None
             \<and> createAndLink e ctor name c ctx w1 = (r, ctx', w')"
    then obtain c w1 where w1: "heap w1 = heap w" "hnext w1 = hnext w"
      and cl: "createAndLink e ctor name c ctx w1 = (r, ctx', w')" by blast
    have "heap w' p = heap w1 p"
      using createAndLink_frame [OF cl] assms w1 by simp
    moreover have "bt_cfg t \<noteq> p" if "r = Inr t" for t
      using createAndLink_fresh [of e ctor name c ctx w1 t ctx' w'] cl that assms w1 by simp
    ultimately show ?thesis using w1 by simp
  qed
  obtain r1 c1 w1 where d: "NewDynamicTunnel e name (Some p) ctx w = (r1, c1, w1)"
    by (cases "NewDynamicTunnel e name (Some p) ctx w")
  obtain r2 c2 w2 where q: "NewQuiescentTunnel e name (Some p) ctx w = (r2, c2, w2)"
    by (cases "NewQuiescentTunnel e name (Some p) ctx w")
  obtain r3 c3 w3 where s: "NewStaticTunnel e name (Some p) ctx w = (r3, c3, w3)"
    by (cases "NewStaticTunnel e name (Some p) ctx w")
  show ?thesis
    using frame [OF NewDynamicTunnel_cases [OF d]] frame [OF NewQuiescentTunnel_cases [OF q]]
      frame [OF NewStaticTunnel_cases [OF s]] d q s
    by simp
qed

lemma NewDynamicTunnel_early_error:
  assumes "(Version (heap w p) = ProtocolVersion2 \<and> TunnelID (heap w p) > 65535)
           \<or> PeerTunnelID (heap w p) \<noteq> 0"
  shows "\<exists>err. NewDynamicTunnel e name (Some p) ctx w = (Inl err, ctx, w)"
proof (cases "findTunnelByName ctx name = None")
  case False
  then show ?thesis by (simp add: NewDynamicTunnel_def Let_def)
next
  case noclash: True
  define c1 where "c1 = (if HostName (heap w p) = [] then
                    (case os_Hostname e of
                       Inl err \<Rightarrow>
                         Inl (Errorf ''failed to look up host name: %v'' [ArgError err])
                     | Inr hn \<Rightarrow> Inr ((heap w p)\<lparr>HostName := hn\<rparr>))
                  else Inr (heap w p))"
  show ?thesis
  proof (cases c1)
    case (Inl err)
    with noclash show ?thesis
      by (simp add: NewDynamicTunnel_def Let_def c1_def [symmetric])
  next
    case (Inr c2)
    then have same2: "Version c2 = Version (heap w p)" "TunnelID c2 = TunnelID (heap w p)"
      "PeerTunnelID c2 = PeerTunnelID (heap w p)"
      by (auto simp: c1_def split: if_splits sum.splits)
    define c where "c = (if StopCCNTimeout c2 = 0
                              then c2\<lparr>StopCCNTimeout := 31 * Second\<rparr> else c2)"
    have same: "Version c = Version (heap w p)" "TunnelID c = TunnelID (heap w p)"
      "PeerTunnelID c = PeerTunnelID (heap w p)"
      using same2 by (simp_all add: c_def)
    have hit: "(Version c = ProtocolVersion2 \<and> TunnelID c > 65535) \<or> PeerTunnelID c \<noteq> 0"
      using assms same by simp
    have body: "NewDynamicTunnel e name (Some p) ctx w =
           (if Version c \<noteq> ProtocolVersion3 \<and> Encap c = EncapTypeIP then
                     (Inl (Errorf ''IP encapsulation only supported for L2TPv3 tunnels'' []),
                      ctx, w)
                   else if Version c = ProtocolVersion2 \<and> TunnelID c > 65535 then
                     (Inl (Errorf ''L2TPv2 connection ID %v out of range''
                             [ArgID (TunnelID c)]), ctx, w)
                   else if PeerTunnelID c \<noteq> 0 then
                     (Inl (Errorf
                        ''L2TPv2 peer connection ID cannot be specified for dynamic tunnels'' []),
                      ctx, w)
                   else if Peer c = [] then
                     (Inl (Errorf ''must specify peer address for dynamic tunnel'' []), ctx, w)
                   else if TunnelID c \<noteq> 0 then
                     (if findTunnelByID ctx (TunnelID c) \<noteq> None then
                        (Inl (Errorf ''already have tunnel with TID %q''
                                [ArgID (TunnelID c)]), ctx, w)
                      else createAndLink e (newDynamicTunnel_err e) name c ctx w)
                   else
                     (case allocTid e ctx (Version c) w of
                        (Inl err, w') \<Rightarrow>
                          (Inl (Errorf ''failed to allocate a TID: %q'' [ArgError err]), ctx, w')
                      | (Inr tid, w') \<Rightarrow>
                          createAndLink e (newDynamicTunnel_err e) name
                            (c\<lparr>TunnelID := tid\<rparr>) ctx w'))"
      using noclash Inr
      by (simp add: NewDynamicTunnel_def Let_def c1_def [symmetric] c_def [symmetric])
    show ?thesis
    proof (cases "Version c \<noteq> ProtocolVersion3 \<and> Encap c = EncapTypeIP")
      case True
      then show ?thesis unfolding body by simp
    next
      case n1: False
      show ?thesis
      proof (cases "Version c = ProtocolVersion2 \<and> TunnelID c > 65535")
        case True
        with n1 show ?thesis unfolding body by simp
      next
        case n2: False
        with hit have "PeerTunnelID c \<noteq> 0" by blast
        with n1 n2 show ?thesis unfolding body by simp
      qed
    qed
  qed
qed

text \<open>
  C2. \<^verbatim>\<open>NewDynamicTunnel\<close> on an L2TPv2 configuration whose \<^verbatim>\<open>TunnelID\<close> exceeds 65535
  returns an error and leaves the context, hence the registry by name and by identifier,
  as it was.
\<close>

theorem NewDynamicTunnel_v2_tid_out_of_range:
  assumes "Version (heap w p) = ProtocolVersion2" and "TunnelID (heap w p) > 65535"
  shows "\<exists>err. NewDynamicTunnel e name (Some p) ctx w = (Inl err, ctx, w)"
  using assms by (intro NewDynamicTunnel_early_error) simp



theorem NewDynamicTunnel_v2_tid_out_of_range_witness:
  "Version (heap world_cfgs 0) = ProtocolVersion2
   \<and> TunnelID (heap world_cfgs 0) > 65535
   \<and> (\<exists>err. NewDynamicTunnel env0 ''t1'' (Some 0) ctx0 world_cfgs = (Inl err, ctx0, world_cfgs))
   \<and> fst (NewDynamicTunnel env0 ''t1'' (Some 0) ctx0 world_cfgs)
        = Inl (Errorf ''L2TPv2 connection ID %v out of range'' [ArgID 70000])"
proof -
  have h1: "Version (heap world_cfgs 0) = ProtocolVersion2"
    by (simp add: world_cfgs_def cfg_v2_70000_def)
  have h2: "TunnelID (heap world_cfgs 0) > 65535"
    by (simp add: world_cfgs_def cfg_v2_70000_def)
  have ev: "fst (NewDynamicTunnel env0 ''t1'' (Some 0) ctx0 world_cfgs)
        = Inl (Errorf ''L2TPv2 connection ID %v out of range'' [ArgID 70000])"
    by (simp add: NewDynamicTunnel_def Let_def world_cfgs_def cfg_v2_70000_def env0_def
        ctx0_def findTunnelByName_def TunnelConfig_zero_def ProtocolVersion2_def
        ProtocolVersion3_def EncapTypeIP_def)
  show ?thesis
    using NewDynamicTunnel_v2_tid_out_of_range [OF h1 h2, of env0 "''t1''" ctx0] h1 h2 ev
    by simp
qed


lemma allocTid_first:
  "allocTid e ctx version w =
     (case generateControlConnID e version w of
        (Inl err, w') \<Rightarrow> (Inl (Errorf ''failed to generate tunnel ID: %v'' [ArgError err]), w')
      | (Inr cid, w') \<Rightarrow>
          if findTunnelByID ctx cid = None then (Inr cid, w')
          else allocTid_loop e ctx version 9 w')"
proof -
  have "(10 :: nat) = Suc 9" by simp
  then show ?thesis unfolding allocTid_def by (simp only: allocTid_loop.simps)
qed

theorem factories_copy_config_witness:
  "(2 :: nat) < hnext world_cfgs
   \<and> heap (snd (snd (NewDynamicTunnel env0 ''t1'' (Some 2) ctx0 world_cfgs))) 2 = cfg_plain
   \<and> heap (snd (snd (NewQuiescentTunnel env0 ''t1'' (Some 2) ctx0 world_cfgs))) 2 = cfg_plain
   \<and> heap (snd (snd (NewStaticTunnel env0 ''t1'' (Some 2) ctx0 world_cfgs))) 2 = cfg_plain
   \<and> fst (NewDynamicTunnel env0 ''t1'' (Some 2) ctx0 world_cfgs) = Inr (newBaseTunnel ''t1'' 3)
   \<and> heap (snd (snd (NewDynamicTunnel env0 ''t1'' (Some 2) ctx0 world_cfgs))) 3
       = cfg_plain\<lparr>TunnelID := 7, HostName := ''lac1'', StopCCNTimeout := 31000000000\<rparr>"
proof -
  have h: "(2 :: nat) < hnext world_cfgs"
    by (simp add: world_cfgs_def)
  have c: "heap world_cfgs 2 = cfg_plain"
    by (simp add: world_cfgs_def)
  have ev: "NewDynamicTunnel env0 ''t1'' (Some 2) ctx0 world_cfgs
      = (Inr (newBaseTunnel ''t1'' 3),
         linkTunnel (world_cfgs\<lparr>rand_pos := 1,
             heap := (heap world_cfgs)(3 := cfg_plain\<lparr>TunnelID := 7, HostName := ''lac1'',
                StopCCNTimeout := 31000000000\<rparr>), hnext := 4\<rparr>) (newBaseTunnel ''t1'' 3) ctx0,
         world_cfgs\<lparr>rand_pos := 1,
             heap := (heap world_cfgs)(3 := cfg_plain\<lparr>TunnelID := 7, HostName := ''lac1'',
                StopCCNTimeout := 31000000000\<rparr>), hnext := 4\<rparr>)"
    by (simp add: NewDynamicTunnel_def Let_def allocTid_first generateControlConnID_def
        rand_Uint32_def createAndLink_def tunnelAddresses_def newUDPAddressPair_def
        newUDPTunnelAddress_def newTunnel_def
        world_cfgs_def cfg_plain_def env0_def
        ctx0_def findTunnelByName_def findTunnelByID_def TunnelConfig_zero_def
        ProtocolVersion2_def ProtocolVersion3_def EncapTypeIP_def EncapTypeUDP_def Second_def)
  show ?thesis
    using factories_copy_config [OF h, of env0 "''t1''" ctx0] h c ev
    by simp
qed


end
